theory Spec2Isabelle
  imports Complex_Main
begin

section \<open>JavaScript numbers\<close>

text \<open>
  Every value the library handles is a JavaScript Number, an IEEE-754 binary64 value:
  a finite real that the format holds (\<open>Fin\<close>; \<open>Fin 0\<close> is \<open>+0\<close>), the negative
  zero, an infinity or NaN. Each arithmetic operator computes the exact real result and
  rounds it to the nearest binary64 value, ties to even; a result too large becomes an
  infinity, and one too small a zero.
\<close>

datatype jsnum = Fin real | NegZero | PInf | NInf | NaN

text \<open>The real a finite Number stands for, its sign bit, and what kind it is.\<close>

fun val_of :: "jsnum \<Rightarrow> real" where
  "val_of (Fin x) = x"
| "val_of NegZero = 0"
| "val_of PInf = 0"
| "val_of NInf = 0"
| "val_of NaN = 0"

fun is_neg :: "jsnum \<Rightarrow> bool" where
  "is_neg (Fin x) = (x < 0)"
| "is_neg NegZero = True"
| "is_neg PInf = False"
| "is_neg NInf = True"
| "is_neg NaN = False"

fun is_zero :: "jsnum \<Rightarrow> bool" where
  "is_zero (Fin x) = (x = 0)"
| "is_zero NegZero = True"
| "is_zero PInf = False"
| "is_zero NInf = False"
| "is_zero NaN = False"

fun is_inf :: "jsnum \<Rightarrow> bool" where
  "is_inf (Fin x) = False"
| "is_inf NegZero = False"
| "is_inf PInf = True"
| "is_inf NInf = True"
| "is_inf NaN = False"

definition signed_zero :: "bool \<Rightarrow> jsnum" where
  "signed_zero neg = (if neg then NegZero else Fin 0)"

definition signed_inf :: "bool \<Rightarrow> jsnum" where
  "signed_inf neg = (if neg then NInf else PInf)"

text \<open>The global predicates \<open>isFinite\<close> and \<open>isNaN\<close>, and the operators \<open>===\<close> and \<open><\<close>.\<close>

fun js_isFinite :: "jsnum \<Rightarrow> bool" where
  "js_isFinite (Fin x) = True"
| "js_isFinite NegZero = True"
| "js_isFinite PInf = False"
| "js_isFinite NInf = False"
| "js_isFinite NaN = False"

fun js_isNaN :: "jsnum \<Rightarrow> bool" where
  "js_isNaN NaN = True"
| "js_isNaN (Fin x) = False"
| "js_isNaN NegZero = False"
| "js_isNaN PInf = False"
| "js_isNaN NInf = False"

definition js_strict_eq :: "jsnum \<Rightarrow> jsnum \<Rightarrow> bool" where
  "js_strict_eq a b = (a \<noteq> NaN \<and> b \<noteq> NaN \<and> (a = b \<or> (is_zero a \<and> is_zero b)))"

fun js_lt :: "jsnum \<Rightarrow> jsnum \<Rightarrow> bool" where
  "js_lt NaN y = False"
| "js_lt x NaN = False"
| "js_lt x NInf = False"
| "js_lt PInf y = False"
| "js_lt NInf y = True"
| "js_lt x PInf = True"
| "js_lt x y = (val_of x < val_of y)"

subsection \<open>Rounding to binary64\<close>

text \<open>
  \<open>rne\<close> rounds a real to the nearest integer, a tie to the even one. A real \<open>x\<close> with
  \<open>2 ^ k \<le> \<bar>x\<bar> < 2 ^ (k + 1)\<close> lies on a grid of spacing \<open>2 ^ (k - 52)\<close> (53
  significant bits), and never finer than \<open>2 ^ - 1074\<close> (the subnormal numbers);
  \<open>rnd\<close> rounds to that grid. \<open>to_double\<close> is the Number an operator returns for
  the exact result \<open>x\<close>: an infinity when the rounded value reaches \<open>2 ^ 1024\<close>, a zero of
  the sign of \<open>x\<close> when it is 0 (of the sign \<open>neg\<close> when \<open>x\<close> itself is 0).
\<close>

definition rne :: "real \<Rightarrow> int" where
  "rne q =
     (let f = \<lfloor>q\<rfloor>; d = q - of_int f
      in if d < 1 / 2 then f else if 1 / 2 < d then f + 1 else if even f then f else f + 1)"

definition ulp_exp :: "real \<Rightarrow> int" where
  "ulp_exp x = max (\<lfloor>log 2 \<bar>x\<bar>\<rfloor> - 52) (- 1074)"

definition rnd :: "real \<Rightarrow> real" where
  "rnd x = (if x = 0 then 0 else of_int (rne (x / 2 powi ulp_exp x)) * 2 powi ulp_exp x)"

definition is_double :: "real \<Rightarrow> bool" where
  "is_double x = (rnd x = x \<and> \<bar>x\<bar> < 2 ^ 1024)"

definition to_double :: "bool \<Rightarrow> real \<Rightarrow> jsnum" where
  "to_double neg x =
     (if 2 ^ 1024 \<le> \<bar>rnd x\<bar> then signed_inf (x < 0)
      else if rnd x = 0 then signed_zero (x < 0 \<or> (x = 0 \<and> neg))
      else Fin (rnd x))"

subsection \<open>The arithmetic operators\<close>

text \<open>
  Unary minus flips the sign bit. \<open>x + y\<close>: a NaN operand gives NaN, as do two
  infinities of opposite sign; an infinity absorbs a finite operand; an exact sum of
  zero is \<open>+0\<close> unless both operands are \<open>-0\<close>. \<open>x - y\<close> is \<open>x + (-y)\<close>.
\<close>

fun js_negate :: "jsnum \<Rightarrow> jsnum" where
  "js_negate (Fin x) = (if x = 0 then NegZero else Fin (- x))"
| "js_negate NegZero = Fin 0"
| "js_negate PInf = NInf"
| "js_negate NInf = PInf"
| "js_negate NaN = NaN"

definition js_add :: "jsnum \<Rightarrow> jsnum \<Rightarrow> jsnum" where
  "js_add a b =
     (if a = NaN \<or> b = NaN then NaN
      else if is_inf a then (if is_inf b \<and> a \<noteq> b then NaN else a)
      else if is_inf b then b
      else to_double (a = NegZero \<and> b = NegZero) (val_of a + val_of b))"

definition js_sub :: "jsnum \<Rightarrow> jsnum \<Rightarrow> jsnum" where
  "js_sub a b = js_add a (js_negate b)"

text \<open>
  \<open>x * y\<close> and \<open>x / y\<close>: the sign of the result is the exclusive or of the signs of
  the operands. An infinity times a zero, an infinity over an infinity and a zero over a
  zero are NaN; a nonzero value over a zero is an infinity, and no division raises.
\<close>

definition js_mul :: "jsnum \<Rightarrow> jsnum \<Rightarrow> jsnum" where
  "js_mul a b =
     (if a = NaN \<or> b = NaN then NaN
      else if is_inf a \<or> is_inf b
        then (if is_zero a \<or> is_zero b then NaN else signed_inf (is_neg a \<noteq> is_neg b))
      else to_double (is_neg a \<noteq> is_neg b) (val_of a * val_of b))"

definition js_div :: "jsnum \<Rightarrow> jsnum \<Rightarrow> jsnum" where
  "js_div a b =
     (if a = NaN \<or> b = NaN then NaN
      else if is_inf a then (if is_inf b then NaN else signed_inf (is_neg a \<noteq> is_neg b))
      else if is_inf b then signed_zero (is_neg a \<noteq> is_neg b)
      else if is_zero b
        then (if is_zero a then NaN else signed_inf (is_neg a \<noteq> is_neg b))
      else to_double (is_neg a \<noteq> is_neg b) (val_of a / val_of b))"

subsection \<open>The functions of \<open>Math\<close> the library calls\<close>

text \<open>
  The language standard fixes \<open>Math.log\<close>, \<open>Math.exp\<close> and \<open>Math.pow\<close> at the
  special values and leaves every other result to the engine (an
  implementation-approximated value). An \<open>engine\<close> holds those results: \<open>log_fin\<close>
  for a finite \<open>x > 0\<close> other than 1 (a finite value: the logarithm of a binary64 value
  is below 745 in magnitude), \<open>exp_fin\<close> for a finite nonzero \<open>x\<close> and \<open>pow_fin\<close> for
  a finite nonzero base and a finite nonzero exponent. Nothing is assumed of them.
\<close>

record engine =
  log_fin :: "real \<Rightarrow> real"
  exp_fin :: "real \<Rightarrow> jsnum"
  pow_fin :: "real \<Rightarrow> real \<Rightarrow> jsnum"

fun Math_log :: "engine \<Rightarrow> jsnum \<Rightarrow> jsnum" where
  "Math_log eng NaN = NaN"
| "Math_log eng PInf = PInf"
| "Math_log eng NInf = NaN"
| "Math_log eng NegZero = NInf"
| "Math_log eng (Fin x) =
     (if x < 0 then NaN else if x = 0 then NInf else if x = 1 then Fin 0
      else Fin (log_fin eng x))"

fun Math_exp :: "engine \<Rightarrow> jsnum \<Rightarrow> jsnum" where
  "Math_exp eng NaN = NaN"
| "Math_exp eng PInf = PInf"
| "Math_exp eng NInf = Fin 0"
| "Math_exp eng NegZero = Fin 1"
| "Math_exp eng (Fin x) = (if x = 0 then Fin 1 else exp_fin eng x)"

text \<open>
  \<open>Math.pow\<close>, case by case as the standard lists them (\<open>Number::exponentiate\<close>): a
  NaN exponent first, then a zero exponent (the result is 1 for every base, NaN too), a
  NaN base, the infinite bases, the zero bases, the infinite exponents, a negative base
  with an exponent that is no integer, and last the engine's value.
\<close>

definition is_odd_integer :: "jsnum \<Rightarrow> bool" where
  "is_odd_integer e =
     (js_isFinite e \<and> of_int \<lfloor>val_of e\<rfloor> = val_of e \<and> odd \<lfloor>val_of e\<rfloor>)"

fun pow_finite_base :: "engine \<Rightarrow> real \<Rightarrow> jsnum \<Rightarrow> jsnum" where
  "pow_finite_base eng b PInf =
     (if 1 < \<bar>b\<bar> then PInf else if \<bar>b\<bar> = 1 then NaN else Fin 0)"
| "pow_finite_base eng b NInf =
     (if 1 < \<bar>b\<bar> then Fin 0 else if \<bar>b\<bar> = 1 then NaN else PInf)"
| "pow_finite_base eng b e =
     (if b < 0 \<and> of_int \<lfloor>val_of e\<rfloor> \<noteq> val_of e then NaN
      else pow_fin eng b (val_of e))"

definition pow_nonzero_exponent :: "engine \<Rightarrow> jsnum \<Rightarrow> jsnum \<Rightarrow> jsnum" where
  "pow_nonzero_exponent eng base e =
     (if base = NaN then NaN
      else if base = PInf then (if js_lt (Fin 0) e then PInf else Fin 0)
      else if base = NInf
        then (if js_lt (Fin 0) e then (if is_odd_integer e then NInf else PInf)
              else (if is_odd_integer e then NegZero else Fin 0))
      else if base = Fin 0 then (if js_lt (Fin 0) e then Fin 0 else PInf)
      else if base = NegZero
        then (if js_lt (Fin 0) e then (if is_odd_integer e then NegZero else Fin 0)
              else (if is_odd_integer e then NInf else PInf))
      else pow_finite_base eng (val_of base) e)"

definition Math_pow :: "engine \<Rightarrow> jsnum \<Rightarrow> jsnum \<Rightarrow> jsnum" where
  "Math_pow eng base exponent =
     (if exponent = NaN then NaN
      else if is_zero exponent then Fin 1
      else pow_nonzero_exponent eng base exponent)"

section \<open>The conversion library\<close>

text \<open>
  The functions of the namespace object \<open>mcad\<close>, each under its own name. The
  parameters \<open>min\<close> and \<open>max\<close> are written \<open>mn\<close> and \<open>mx\<close>; a call through
  \<open>this\<close> is a call of the sibling function; a function that calls \<open>Math\<close> takes
  the engine it runs on.
\<close>

definition unsignedNormToParam :: "jsnum \<Rightarrow> jsnum \<Rightarrow> jsnum \<Rightarrow> jsnum" where
  "unsignedNormToParam t mn mx = js_add mn (js_mul (js_sub mx mn) t)"

definition paramToUnsignedNorm :: "jsnum \<Rightarrow> jsnum \<Rightarrow> jsnum \<Rightarrow> jsnum" where
  "paramToUnsignedNorm p mn mx = js_div (js_sub p mn) (js_sub mx mn)"

definition unsignedNtoSignedN :: "jsnum \<Rightarrow> jsnum" where
  "unsignedNtoSignedN t = js_sub (js_mul t (Fin 2)) (Fin 1)"



definition paramToSignedNorm :: "jsnum \<Rightarrow> jsnum \<Rightarrow> jsnum \<Rightarrow> jsnum" where
  "paramToSignedNorm p mn mx = unsignedNtoSignedN (paramToUnsignedNorm p mn mx)"

definition unsignedNormToLog :: "engine \<Rightarrow> jsnum \<Rightarrow> jsnum \<Rightarrow> jsnum \<Rightarrow> jsnum" where
  "unsignedNormToLog eng t mn mx =
     (let minv = Math_log eng mn;
          maxv = Math_log eng mx;
          scale = js_sub maxv minv
      in Math_exp eng (js_add (js_mul scale t) minv))"

definition logToUnsignedNorm :: "engine \<Rightarrow> jsnum \<Rightarrow> jsnum \<Rightarrow> jsnum \<Rightarrow> jsnum" where
  "logToUnsignedNorm eng p mn mx =
     (let minv = Math_log eng mn;
          maxv = Math_log eng mx;
          scale = js_sub maxv minv
      in js_div (js_sub (Math_log eng p) minv) scale)"

definition midiNoteToHz :: "engine \<Rightarrow> jsnum \<Rightarrow> jsnum" where
  "midiNoteToHz eng noteNumber =
     (let f_0 = Fin 440;
          MidA = Fin 69;
          n = js_sub noteNumber MidA;
          a = Math_pow eng (Fin 2) (js_div (Fin 1) (Fin 12))
      in js_mul f_0 (Math_pow eng a n))"

section \<open>Rounding: the values binary64 holds\<close>

lemma rne_of_int: "rne (of_int n) = n"
  by (simp add: rne_def)

lemma powi_powr: "(2::real) powi k = 2 powr (of_int k)"
  by (simp add: powr_real_of_int')

lemma log2_powi: "log 2 (2 powi k) = of_int k"
  by (simp only: powi_powr) simp

lemma floor_log2:
  assumes x: "0 < x" and a: "2 powi k \<le> x" and b: "x < 2 powi (k + 1)"
  shows "\<lfloor>log 2 x\<rfloor> = k"
proof -
  from a have a': "2 powr (of_int k) \<le> x"
    by (simp only: powi_powr)
  from b have "x < 2 powr (of_int (k + 1))"
    by (simp only: powi_powr)
  then have "x < 2 powr (of_int k + 1)"
    by (simp only: of_int_add of_int_1)
  with a' show ?thesis
    using x by (simp add: floor_log_eq_powr_iff)
qed

text \<open>Rounding a real whose binade \<open>k\<close> is known: the form that evaluates.\<close>

lemma rnd_eval:
  assumes a: "2 powi k \<le> \<bar>x\<bar>" and b: "\<bar>x\<bar> < 2 powi (k + 1)"
    and u: "u = max (k - 52) (- 1074)"
  shows "rnd x = of_int (rne (x / 2 powi u)) * 2 powi u"
proof -
  have "0 < (2::real) powi k" by simp
  with a have pos: "0 < \<bar>x\<bar>" by linarith
  then have "\<lfloor>log 2 \<bar>x\<bar>\<rfloor> = k"
    using a b by (rule floor_log2)
  then have "ulp_exp x = u"
    by (simp add: ulp_exp_def u)
  moreover have "x \<noteq> 0" using pos by auto
  ultimately show ?thesis by (simp add: rnd_def)
qed

lemma ulp_exp_le:
  assumes "x \<noteq> 0" "\<bar>x\<bar> < 2 powi (e + 53)" "- 1074 \<le> e"
  shows "ulp_exp x \<le> e"
proof -
  have pos: "0 < \<bar>x\<bar>" using assms(1) by simp
  have "log 2 \<bar>x\<bar> < log 2 (2 powi (e + 53))"
    using pos assms(2) by (subst log_less_cancel_iff) simp_all
  also have "log 2 (2 powi (e + 53)) = of_int (e + 53)"
    by (rule log2_powi)
  finally have "\<lfloor>log 2 \<bar>x\<bar>\<rfloor> < e + 53"
    by (simp add: floor_less_iff)
  then show ?thesis using assms(3) by (simp add: ulp_exp_def)
qed

lemma powi_nonneg_int: "0 \<le> n \<Longrightarrow> (2::real) powi n = of_int (2 ^ nat n)"
  by (simp add: power_int_def)

lemma mantissa_bound:
  assumes "\<bar>m\<bar> < 2 ^ 53"
  shows "\<bar>of_int m * 2 powi e\<bar> < (2::real) powi (e + 53)"
proof -
  have "(of_int \<bar>m\<bar> :: real) < of_int (2 ^ 53)"
    using assms by (simp only: of_int_less_iff)
  then have "of_int \<bar>m\<bar> * 2 powi e < (2::real) ^ 53 * 2 powi e"
    by simp
  also have "\<dots> = 2 powi (e + 53)"
    by (simp add: power_int_add)
  finally show ?thesis
    by (simp add: abs_mult)
qed

text \<open>
  A value \<open>m * 2 ^ e\<close> with a 53-bit \<open>m\<close> and \<open>e\<close> no smaller than -1074 is on the
  grid: rounding leaves it alone.
\<close>

lemma rnd_representable:
  assumes x: "x = of_int m * 2 powi e" and m: "\<bar>m\<bar> < 2 ^ 53" and e: "- 1074 \<le> e"
  shows "rnd x = x"
proof (cases "x = 0")
  case True
  then show ?thesis by (simp add: rnd_def)
next
  case False
  define u where "u = ulp_exp x"
  have "\<bar>x\<bar> < 2 powi (e + 53)"
    unfolding x using m by (rule mantissa_bound)
  then have "ulp_exp x \<le> e"
    using False e by (intro ulp_exp_le)
  then have ue: "0 \<le> e - u" by (simp add: u_def)
  have "x / 2 powi u = of_int m * 2 powi (e - u)"
    by (simp add: x power_int_diff)
  also have "\<dots> = of_int (m * 2 ^ nat (e - u))"
    using ue by (simp add: powi_nonneg_int)
  finally have q: "x / 2 powi u = of_int (m * 2 ^ nat (e - u))" .
  have "rnd x = of_int (rne (x / 2 powi u)) * 2 powi u"
    using False by (simp add: rnd_def u_def)
  also have "\<dots> = (x / 2 powi u) * 2 powi u"
    by (simp only: q rne_of_int)
  also have "\<dots> = x" by simp
  finally show ?thesis .
qed

lemma is_doubleI:
  assumes x: "x = of_int m * 2 powi e" and m: "\<bar>m\<bar> < 2 ^ 53"
    and e: "- 1074 \<le> e" and e': "e \<le> 971"
  shows "is_double x"
proof -
  have "\<bar>x\<bar> < 2 powi (e + 53)"
    unfolding x using m by (rule mantissa_bound)
  also have "\<dots> \<le> 2 powi 1024"
    using e' by (intro power_int_increasing) simp_all
  finally have "\<bar>x\<bar> < 2 ^ 1024" by simp
  then show ?thesis
    using rnd_representable [OF x m e] by (simp add: is_double_def)
qed

lemma is_double_int: "\<bar>m\<bar> < 2 ^ 53 \<Longrightarrow> is_double (of_int m)"
  using is_doubleI [of "of_int m" m 0] by simp

lemma is_double_0: "is_double 0"
  by (simp add: is_double_def rnd_def)

section \<open>Operations whose result is exact\<close>

text \<open>
  When the exact result of an operator is a binary64 value, the operator returns it:
  nothing is rounded. The sign of a zero result is left open; \<open>===\<close> ignores it.
\<close>

lemma to_double_exact:
  "is_double x \<Longrightarrow> to_double neg x = (if x = 0 then signed_zero neg else Fin x)"
  by (simp add: to_double_def is_double_def)

lemma to_double_finite:
  "is_double x \<Longrightarrow> js_isFinite (to_double neg x) \<and> val_of (to_double neg x) = x"
  by (simp add: to_double_exact signed_zero_def)

lemma js_isFinite_iff: "js_isFinite a \<longleftrightarrow> a \<noteq> NaN \<and> \<not> is_inf a"
  by (cases a) simp_all

lemma js_negate_finite:
  "js_isFinite b \<Longrightarrow> js_isFinite (js_negate b) \<and> val_of (js_negate b) = - val_of b"
  by (cases b) simp_all

lemma js_add_exact:
  assumes "js_isFinite a" "js_isFinite b" "is_double (val_of a + val_of b)"
  shows "js_isFinite (js_add a b) \<and> val_of (js_add a b) = val_of a + val_of b"
proof -
  have "js_add a b = to_double (a = NegZero \<and> b = NegZero) (val_of a + val_of b)"
    using assms(1,2) by (simp add: js_add_def js_isFinite_iff)
  then show ?thesis
    using to_double_finite [OF assms(3)] by simp
qed

lemma js_sub_exact:
  assumes "js_isFinite a" "js_isFinite b" "is_double (val_of a - val_of b)"
  shows "js_isFinite (js_sub a b) \<and> val_of (js_sub a b) = val_of a - val_of b"
  using js_add_exact [of a "js_negate b"] js_negate_finite [of b] assms
  by (simp add: js_sub_def)

lemma js_mul_exact:
  assumes "js_isFinite a" "js_isFinite b" "is_double (val_of a * val_of b)"
  shows "js_isFinite (js_mul a b) \<and> val_of (js_mul a b) = val_of a * val_of b"
proof -
  have "js_mul a b = to_double (is_neg a \<noteq> is_neg b) (val_of a * val_of b)"
    using assms(1,2) by (simp add: js_mul_def js_isFinite_iff)
  then show ?thesis
    using to_double_finite [OF assms(3)] by simp
qed

lemma is_zero_val: "js_isFinite b \<Longrightarrow> is_zero b \<longleftrightarrow> val_of b = 0"
  by (cases b) simp_all

lemma js_div_exact:
  assumes "js_isFinite a" "js_isFinite b" "val_of b \<noteq> 0" "is_double (val_of a / val_of b)"
  shows "js_isFinite (js_div a b) \<and> val_of (js_div a b) = val_of a / val_of b"
proof -
  have "js_div a b = to_double (is_neg a \<noteq> is_neg b) (val_of a / val_of b)"
    using assms(1,2,3) by (simp add: js_div_def js_isFinite_iff is_zero_val)
  then show ?thesis
    using to_double_finite [OF assms(4)] by simp
qed


text \<open>The operators on two \<open>Fin\<close> operands.\<close>

lemma js_add_Fin: "js_add (Fin x) (Fin y) = to_double False (x + y)"
  by (simp add: js_add_def)

lemma js_sub_Fin: "js_sub (Fin x) (Fin y) = to_double False (x - y)"
  by (simp add: js_sub_def js_add_def)

lemma js_mul_Fin: "js_mul (Fin x) (Fin y) = to_double ((x < 0) \<noteq> (y < 0)) (x * y)"
  by (simp add: js_mul_def)

lemma js_div_Fin:
  "y \<noteq> 0 \<Longrightarrow> js_div (Fin x) (Fin y) = to_double ((x < 0) \<noteq> (y < 0)) (x / y)"
  by (simp add: js_div_def)

lemma to_double_0: "to_double neg 0 = signed_zero neg"
  by (simp add: to_double_def rnd_def)

lemma to_double_rounded:
  "rnd x = y \<Longrightarrow> y \<noteq> 0 \<Longrightarrow> \<bar>y\<bar> < 2 ^ 1024 \<Longrightarrow> to_double neg x = Fin y"
  by (simp add: to_double_def)


lemma sub_Fin_exact:
  "is_double (x - y) \<Longrightarrow> js_sub (Fin x) (Fin y) = Fin (x - y)"
  by (simp add: js_sub_Fin to_double_exact signed_zero_def)

lemma mul_Fin_exact:
  "is_double (x * y) \<Longrightarrow> x * y \<noteq> 0 \<Longrightarrow> js_mul (Fin x) (Fin y) = Fin (x * y)"
  by (simp add: js_mul_Fin to_double_exact)

lemma div_Fin_exact:
  "is_double (x / y) \<Longrightarrow> x \<noteq> 0 \<Longrightarrow> y \<noteq> 0 \<Longrightarrow> js_div (Fin x) (Fin y) = Fin (x / y)"
  by (simp add: js_div_Fin to_double_exact)

lemma to_double_overflow:
  "rnd x = y \<Longrightarrow> 2 ^ 1024 \<le> \<bar>y\<bar> \<Longrightarrow> to_double neg x = signed_inf (x < 0)"
  by (simp add: to_double_def)

lemma js_add_Fin_left:
  "js_isFinite r \<Longrightarrow> is_double (x + val_of r) \<Longrightarrow> js_add (Fin x) r = Fin (x + val_of r)"
  by (simp add: js_add_def js_isFinite_iff to_double_exact signed_zero_def)


section \<open>The library on arguments where no operation rounds\<close>

lemma unsignedNormToParam_exact:
  assumes "is_double (mx - mn)" "is_double ((mx - mn) * t)" "is_double (mn + (mx - mn) * t)"
  shows "unsignedNormToParam (Fin t) (Fin mn) (Fin mx) = Fin (mn + (mx - mn) * t)"
proof -
  have d: "js_sub (Fin mx) (Fin mn) = Fin (mx - mn)"
    using assms(1) by (rule sub_Fin_exact)
  have m: "js_isFinite (js_mul (Fin (mx - mn)) (Fin t))
      \<and> val_of (js_mul (Fin (mx - mn)) (Fin t)) = (mx - mn) * t"
    using js_mul_exact [of "Fin (mx - mn)" "Fin t"] assms(2) by simp
  show ?thesis
    using js_add_Fin_left [of "js_mul (Fin (mx - mn)) (Fin t)" mn] m assms(3)
    by (simp add: unsignedNormToParam_def d)
qed

lemma unsignedNormToParam_at_0:
  assumes "is_double mn" "js_isFinite (js_sub (Fin mx) (Fin mn))"
  shows "unsignedNormToParam (Fin 0) (Fin mn) (Fin mx) = Fin mn"
proof -
  define d where "d = js_sub (Fin mx) (Fin mn)"
  have m: "js_isFinite (js_mul d (Fin 0)) \<and> val_of (js_mul d (Fin 0)) = 0"
    using js_mul_exact [of d "Fin 0"] assms(2) is_double_0 by (simp add: d_def)
  show ?thesis
    using js_add_Fin_left [of "js_mul d (Fin 0)" mn] m assms(1)
    by (simp add: unsignedNormToParam_def d_def)
qed

lemma unsignedNormToParam_at_1:
  assumes "is_double mx" "is_double (mx - mn)"
  shows "unsignedNormToParam (Fin 1) (Fin mn) (Fin mx) = Fin mx"
  using unsignedNormToParam_exact [of mx mn 1] assms by simp




section \<open>Some binary64 values\<close>

lemma is_double_numeral: "(numeral n :: int) < 2 ^ 53 \<Longrightarrow> is_double (numeral n)"
  using is_double_int [of "numeral n"] by simp

lemma is_double_1: "is_double 1"
  using is_double_int [of 1] by simp

lemma is_double_minus: "is_double x \<Longrightarrow> is_double (- x)"
proof -
  have "rne (- q) = - rne q" for q
  proof (cases "of_int \<lfloor>q\<rfloor> = q")
    case True
    then obtain n where "q = of_int n" by metis
    then show ?thesis
      using rne_of_int [of "- n"] by (simp add: rne_of_int)
  next
    case False
    then have c: "\<lceil>q\<rceil> = \<lfloor>q\<rfloor> + 1"
      by (simp add: ceiling_altdef)
    have "\<lfloor>- q\<rfloor> = - \<lfloor>q\<rfloor> - 1"
      using c by (simp add: ceiling_def)
    then show ?thesis
      by (auto simp add: rne_def Let_def)
  qed
  then have "rnd (- x) = - rnd x"
    by (simp add: rnd_def ulp_exp_def)
  then show "is_double x \<Longrightarrow> is_double (- x)"
    by (simp add: is_double_def)
qed

lemma is_double_fraction:
  "\<bar>m\<bar> < 2 ^ 53 \<Longrightarrow> k \<le> 1074 \<Longrightarrow> is_double (of_int m / 2 ^ k)"
  using is_doubleI [of "of_int m / 2 ^ k" m "- int k"]
  by (simp add: power_int_minus_divide)

lemma small_doubles:
  "is_double (1 / 2)" "is_double (1 / 4)" "is_double (3 / 4)" "is_double (3 / 2)"
  "is_double (7 / 4)" "is_double (7 / 8)"
  using is_double_fraction [of 1 1] is_double_fraction [of 1 2] is_double_fraction [of 3 2]
    is_double_fraction [of 3 1] is_double_fraction [of 7 2] is_double_fraction [of 7 3]
  by simp_all

lemma large_doubles:
  "is_double 10000000000000000" "is_double 10000000000000002"
  "is_double 9007199254740992" "is_double 9007199254740994"
  "is_double 100000000000000000" "is_double 200000000000000000"
  using is_doubleI [of 10000000000000000 "5 ^ 16" 16]
    is_doubleI [of 10000000000000002 5000000000000001 1]
    is_doubleI [of 9007199254740992 1 53]
    is_doubleI [of 9007199254740994 4503599627370497 1]
    is_doubleI [of 100000000000000000 "5 ^ 17" 17]
    is_doubleI [of 200000000000000000 "5 ^ 17" 18]
  by simp_all

section \<open>The compositions where no operation rounds\<close>






section \<open>Worked roundings\<close>


lemma rnd_1e17_1: "rnd (1 - - 100000000000000000) = 100000000000000000"
  by (simp add: rnd_eval [where k = 56] rne_def)

lemma rnd_2p53_1: "rnd (1 - - 9007199254740992) = 9007199254740992"
  by (simp add: rnd_eval [where k = 53] rne_def)

lemma unsignedNormToParam_absorbs:
  "unsignedNormToParam (Fin 1) (Fin (- 9007199254740992)) (Fin 1) = Fin 0"
proof -
  have s: "js_sub (Fin 1) (Fin (- 9007199254740992)) = Fin 9007199254740992"
    unfolding js_sub_Fin by (rule to_double_rounded [OF rnd_2p53_1]) simp_all
  have m: "js_mul (Fin 9007199254740992) (Fin 1) = Fin 9007199254740992"
    using mul_Fin_exact [of 9007199254740992 1] by (simp add: large_doubles)
  have a: "js_add (Fin (- 9007199254740992)) (Fin 9007199254740992) = Fin 0"
    by (simp add: js_add_Fin to_double_0 signed_zero_def)
  show ?thesis
    by (simp only: unsignedNormToParam_def s m a)
qed

lemma rnd_2p1024: "rnd (2 ^ 1023 - - (2 ^ 1023)) = 2 ^ 1024"
proof -
  have "(2::real) ^ 1023 - - (2 ^ 1023) = 2 ^ 1024" by simp
  then show ?thesis
    using rnd_representable [of "2 ^ 1024" 1 1024] by simp
qed

lemma is_double_2p1023: "is_double (2 ^ 1023)" "is_double (- (2 ^ 1023))"
proof -
  have "(2::real) ^ 1023 = of_int (2 ^ 52) * 2 powi 971"
    by simp
  then show "is_double (2 ^ 1023)"
    by (rule is_doubleI) simp_all
  then show "is_double (- (2 ^ 1023))"
    by (rule is_double_minus)
qed

lemma sub_overflows: "js_sub (Fin (2 ^ 1023)) (Fin (- (2 ^ 1023))) = PInf"
  unfolding js_sub_Fin
  using to_double_overflow [OF rnd_2p1024, of False] by (simp add: signed_inf_def)

lemma unsignedNormToParam_overflows:
  "unsignedNormToParam (Fin 0) (Fin (- (2 ^ 1023))) (Fin (2 ^ 1023)) = NaN"
  by (simp only: unsignedNormToParam_def sub_overflows) (simp add: js_mul_def js_add_def)







section \<open>Degenerate arguments\<close>

text \<open>
  NaN and the infinities propagate through the operators, so a bound whose logarithm is
  not finite, or a zero divisor, decides the kind of the result whatever the engine.
\<close>

lemma sub_self: "js_sub a a = NaN \<or> is_zero (js_sub a a)"
  by (cases a) (simp_all add: js_sub_def js_add_def to_double_0 signed_zero_def)

lemma div_by_zero: "is_zero z \<Longrightarrow> \<not> js_isFinite (js_div w z)"
  by (cases z; cases w) (auto simp add: js_div_def signed_inf_def)

lemma div_by_inf: "is_inf s \<Longrightarrow> js_div w s \<in> {NaN, Fin 0, NegZero}"
  by (cases s; cases w) (auto simp add: js_div_def signed_zero_def)

lemma div_not_finite: "\<not> js_isFinite n \<Longrightarrow> \<not> js_isFinite (js_div n s)"
  by (cases n; cases s) (auto simp add: js_div_def signed_inf_def)

lemma sub_not_finite: "\<not> js_isFinite l \<Longrightarrow> \<not> js_isFinite (js_sub l a)"
  by (cases l; cases a) (auto simp add: js_sub_def js_add_def)

lemma sub_not_finite_right: "\<not> js_isFinite a \<Longrightarrow> \<not> js_isFinite (js_sub b a)"
  by (cases a; cases b) (simp_all add: js_sub_def js_add_def)

lemma mul_not_finite: "\<not> js_isFinite s \<Longrightarrow> \<not> js_isFinite (js_mul s t)"
  by (cases s; cases t) (simp_all add: js_mul_def signed_inf_def)

lemma add_not_finite: "\<not> js_isFinite x \<Longrightarrow> \<not> js_isFinite (js_add x y)"
  by (cases x; cases y) (simp_all add: js_add_def)

lemma exp_not_finite: "\<not> js_isFinite x \<Longrightarrow> Math_exp eng x \<in> {NaN, Fin 0, PInf}"
  by (cases x) simp_all

lemma NaN_operand:
  "js_add NaN x = NaN" "js_add x NaN = NaN" "js_sub NaN x = NaN" "js_sub x NaN = NaN"
  "js_mul NaN x = NaN" "js_mul x NaN = NaN" "js_div NaN x = NaN" "js_div x NaN = NaN"
  by (simp_all add: js_add_def js_sub_def js_mul_def js_div_def)

lemma paramToUnsignedNorm_equal_bounds: "\<not> js_isFinite (paramToUnsignedNorm p m m)"
  using sub_self [of m] by (auto simp add: paramToUnsignedNorm_def NaN_operand div_by_zero)

lemma unsignedNtoSignedN_not_finite:
  "\<not> js_isFinite x \<Longrightarrow> \<not> js_isFinite (unsignedNtoSignedN x)"
  by (cases x)
    (simp_all add: unsignedNtoSignedN_def js_mul_def js_sub_def js_add_def signed_inf_def)

lemma paramToSignedNorm_equal_bounds: "\<not> js_isFinite (paramToSignedNorm p m m)"
  by (simp add: paramToSignedNorm_def unsignedNtoSignedN_not_finite
      paramToUnsignedNorm_equal_bounds)

lemma logToUnsignedNorm_nonpositive:
  "pv \<le> 0 \<Longrightarrow> \<not> js_isFinite (logToUnsignedNorm eng (Fin pv) mn mx)"
  by (simp add: logToUnsignedNorm_def Let_def div_not_finite sub_not_finite)

lemma unsignedNormToLog_negative_bound:
  "mn < 0 \<or> mx < 0 \<Longrightarrow> unsignedNormToLog eng t (Fin mn) (Fin mx) = NaN"
  by (auto simp add: unsignedNormToLog_def Let_def NaN_operand)

lemma logToUnsignedNorm_negative_bound:
  "mn < 0 \<or> mx < 0 \<Longrightarrow> logToUnsignedNorm eng p (Fin mn) (Fin mx) = NaN"
  by (auto simp add: logToUnsignedNorm_def Let_def NaN_operand)

lemma unsignedNormToLog_zero_bound:
  assumes "mn = 0 \<or> mx = 0"
  shows "unsignedNormToLog eng t (Fin mn) (Fin mx) \<in> {NaN, Fin 0, PInf}"
proof -
  define minv where "minv = Math_log eng (Fin mn)"
  define maxv where "maxv = Math_log eng (Fin mx)"
  have "\<not> js_isFinite minv \<or> \<not> js_isFinite maxv"
    using assms by (auto simp add: minv_def maxv_def)
  then have "\<not> js_isFinite (js_sub maxv minv)"
    using sub_not_finite [of maxv minv] sub_not_finite_right [of minv maxv] by blast
  then have "\<not> js_isFinite (js_add (js_mul (js_sub maxv minv) t) minv)"
    by (intro add_not_finite mul_not_finite)
  then have "Math_exp eng (js_add (js_mul (js_sub maxv minv) t) minv) \<in> {NaN, Fin 0, PInf}"
    by (rule exp_not_finite)
  then show ?thesis
    by (simp only: unsignedNormToLog_def Let_def minv_def maxv_def)
qed

lemma logToUnsignedNorm_zero_bound:
  "mn = 0 \<or> mx = 0 \<Longrightarrow>
   logToUnsignedNorm eng p (Fin mn) (Fin mx) \<in> {NaN, Fin 0, NegZero}"
proof (cases "mn = 0")
  case True
  have "js_sub (Math_log eng p) NInf = NaN \<or> js_sub (Math_log eng p) NInf = PInf"
    by (cases "Math_log eng p") (simp_all add: js_sub_def js_add_def)
  moreover have "js_sub (Math_log eng (Fin mx)) NInf = NaN
      \<or> js_sub (Math_log eng (Fin mx)) NInf = PInf"
    by (cases "Math_log eng (Fin mx)") (simp_all add: js_sub_def js_add_def)
  ultimately show ?thesis
    using True by (auto simp add: logToUnsignedNorm_def Let_def NaN_operand js_div_def)
next
  case False
  assume "mn = 0 \<or> mx = 0"
  with False have mx: "mx = 0" by simp
  define s where "s = js_sub NInf (Math_log eng (Fin mn))"
  define w where "w = js_sub (Math_log eng p) (Math_log eng (Fin mn))"
  have r: "logToUnsignedNorm eng p (Fin mn) (Fin mx) = js_div w s"
    using mx by (simp add: logToUnsignedNorm_def Let_def s_def w_def)
  have "s = NaN \<or> is_inf s"
    unfolding s_def by (cases "Math_log eng (Fin mn)") (simp_all add: js_sub_def js_add_def)
  then show ?thesis
    unfolding r using div_by_inf [of s w] by (auto simp add: NaN_operand)
qed

section \<open>What holds on every engine\<close>

text \<open>
  The logarithmic conversions and \<open>midiNoteToHz\<close> return what the engine's
  \<open>Math.log\<close>, \<open>Math.exp\<close> and \<open>Math.pow\<close> return, so their values at ordinary
  arguments are not determined here. Three facts do not depend on the engine: note 69
  is 440 Hz, because the exponent is then zero and \<open>Math.pow\<close> of a zero exponent is
  1; with equal bounds \<open>logToUnsignedNorm\<close> divides by a zero scale, or by NaN; and
  between the bounds 1 and 1 \<open>unsignedNormToLog\<close> is 1, because \<open>Math.log(1)\<close> is
  \<open>+0\<close> and \<open>Math.exp\<close> of a zero is 1.
\<close>

lemma midiNoteToHz_69: "midiNoteToHz eng (Fin 69) = Fin 440"
proof -
  have n: "js_sub (Fin 69) (Fin 69) = Fin 0"
    using sub_Fin_exact [of 69 69] by (simp add: is_double_0)
  have m: "js_mul (Fin 440) (Fin 1) = Fin 440"
    using mul_Fin_exact [of 440 1] by (simp add: is_double_numeral)
  show ?thesis
    by (simp add: midiNoteToHz_def Let_def n Math_pow_def m)
qed

lemma logToUnsignedNorm_equal_bounds: "\<not> js_isFinite (logToUnsignedNorm eng p m m)"
  using sub_self [of "Math_log eng m"]
  by (auto simp add: logToUnsignedNorm_def Let_def NaN_operand div_by_zero)

lemma unsignedNormToLog_unit_bounds: "unsignedNormToLog eng (Fin t) (Fin 1) (Fin 1) = Fin 1"
  by (simp add: unsignedNormToLog_def Let_def js_sub_def js_add_def js_mul_def to_double_0
      signed_zero_def)

section \<open>The properties of the specification\<close>




text \<open>
  C4, as the code has it. \<open>unsignedNormToParam(t, min, max)\<close> is
  \<open>min + (max - min) * t\<close> whenever none of the three operations rounds, for \<open>t\<close>
  inside \<open>[0,1]\<close> and outside it. At \<open>t = 0\<close> it is \<open>min\<close> whenever \<open>max - min\<close>
  is finite, and at \<open>t = 1\<close> it is \<open>max\<close> whenever \<open>max - min\<close> does not round
  (\<open>min\<close> and \<open>max\<close> binary64 values). 0.5 between 200 and 400 gives 300.
\<close>

theorem unsignedNormToParam_interpolates:
  "(is_double (mx - mn) \<and> is_double ((mx - mn) * t) \<and> is_double (mn + (mx - mn) * t) \<longrightarrow>
      unsignedNormToParam (Fin t) (Fin mn) (Fin mx) = Fin (mn + (mx - mn) * t))
   \<and> (is_double mn \<and> js_isFinite (js_sub (Fin mx) (Fin mn)) \<longrightarrow>
      unsignedNormToParam (Fin 0) (Fin mn) (Fin mx) = Fin mn)
   \<and> (is_double mx \<and> is_double (mx - mn) \<longrightarrow>
      unsignedNormToParam (Fin 1) (Fin mn) (Fin mx) = Fin mx)
   \<and> unsignedNormToParam (Fin (1 / 2)) (Fin 200) (Fin 400) = Fin 300"
proof -
  have "unsignedNormToParam (Fin (1 / 2)) (Fin 200) (Fin 400) = Fin 300"
    using unsignedNormToParam_exact [of 400 200 "1 / 2"] by (simp add: is_double_numeral)
  then show ?thesis
    using unsignedNormToParam_exact [of mx mn t] unsignedNormToParam_at_0 [of mn mx]
      unsignedNormToParam_at_1 [of mx mn]
    by blast
qed

theorem unsignedNormToParam_interpolates_witness:
  "is_double (400 - 200) \<and> is_double ((400 - 200) * 2) \<and> is_double (200 + (400 - 200) * 2)
   \<and> unsignedNormToParam (Fin 2) (Fin 200) (Fin 400) = Fin 600
   \<and> is_double 200 \<and> js_isFinite (js_sub (Fin 400) (Fin 200))
   \<and> unsignedNormToParam (Fin 0) (Fin 200) (Fin 400) = Fin 200
   \<and> is_double 400
   \<and> unsignedNormToParam (Fin 1) (Fin 200) (Fin 400) = Fin 400"
proof -
  have f: "js_isFinite (js_sub (Fin 400) (Fin 200))"
    using sub_Fin_exact [of 400 200] by (simp add: is_double_numeral)
  show ?thesis
    using unsignedNormToParam_interpolates [of 400 200 2] f
    by (simp add: is_double_numeral)
qed

text \<open>
  C4 as the specification words it fails at both ends. \<open>1 - (-2^53)\<close> rounds to
  \<open>2^53\<close>, so \<open>unsignedNormToParam(1, -2^53, 1)\<close> is 0 and not \<open>max\<close>;
  \<open>2^1023 - (-2^1023)\<close> overflows to \<open>Infinity\<close>, which times 0 is NaN, so
  \<open>unsignedNormToParam(0, -2^1023, 2^1023)\<close> is NaN and not \<open>min\<close>.
\<close>

theorem unsignedNormToParam_ends_fail:
  "is_double 1 \<and> is_double (- 9007199254740992)
   \<and> unsignedNormToParam (Fin 1) (Fin (- 9007199254740992)) (Fin 1) = Fin 0
   \<and> \<not> js_strict_eq (unsignedNormToParam (Fin 1) (Fin (- 9007199254740992)) (Fin 1)) (Fin 1)
   \<and> is_double 0 \<and> is_double (- (2 ^ 1023)) \<and> is_double (2 ^ 1023)
   \<and> unsignedNormToParam (Fin 0) (Fin (- (2 ^ 1023))) (Fin (2 ^ 1023)) = NaN"
  unfolding unsignedNormToParam_absorbs unsignedNormToParam_overflows
  using is_double_2p1023
  by (simp add: js_strict_eq_def is_double_1 is_double_0 is_double_minus large_doubles)







text \<open>
  C8, as the code has it. No function of the library has a failing branch: each returns
  a Number on every Number. With \<open>max\<close> equal to \<open>min\<close>, \<open>paramToUnsignedNorm\<close> and
  \<open>paramToSignedNorm\<close> return NaN or an infinity; with \<open>p \<le> 0\<close>,
  \<open>logToUnsignedNorm\<close> returns NaN or an infinity; with a negative \<open>min\<close> or \<open>max\<close>,
  \<open>unsignedNormToLog\<close> and \<open>logToUnsignedNorm\<close> return NaN. With a \<open>min\<close> or
  \<open>max\<close> that is zero the result need not be NaN: \<open>unsignedNormToLog\<close> returns NaN,
  0 or \<open>+Infinity\<close>, and \<open>logToUnsignedNorm\<close> returns NaN or a zero. All of it holds
  on every engine.
\<close>

theorem degenerate_inputs:
  "\<not> js_isFinite (paramToUnsignedNorm p m m)
   \<and> \<not> js_isFinite (paramToSignedNorm p m m)
   \<and> (pv \<le> 0 \<longrightarrow> \<not> js_isFinite (logToUnsignedNorm eng (Fin pv) lo hi))
   \<and> (mn < 0 \<or> mx < 0 \<longrightarrow>
        unsignedNormToLog eng t (Fin mn) (Fin mx) = NaN
        \<and> logToUnsignedNorm eng q (Fin mn) (Fin mx) = NaN)
   \<and> (mn0 = 0 \<or> mx0 = 0 \<longrightarrow>
        unsignedNormToLog eng t0 (Fin mn0) (Fin mx0) \<in> {NaN, Fin 0, PInf}
        \<and> logToUnsignedNorm eng q0 (Fin mn0) (Fin mx0) \<in> {NaN, Fin 0, NegZero})"
  by (simp add: paramToUnsignedNorm_equal_bounds paramToSignedNorm_equal_bounds
      logToUnsignedNorm_nonpositive unsignedNormToLog_negative_bound
      logToUnsignedNorm_negative_bound unsignedNormToLog_zero_bound
      logToUnsignedNorm_zero_bound del: insert_iff)

theorem degenerate_inputs_witness:
  "\<forall>eng.
     \<not> js_isFinite (paramToUnsignedNorm (Fin 3) (Fin 2) (Fin 2))
     \<and> \<not> js_isFinite (paramToSignedNorm (Fin 3) (Fin 2) (Fin 2))
     \<and> (0::real) \<le> 0
     \<and> \<not> js_isFinite (logToUnsignedNorm eng (Fin 0) (Fin 20) (Fin 20000))
     \<and> (- 1 :: real) < 0
     \<and> unsignedNormToLog eng (Fin 1) (Fin (- 1)) (Fin 5) = NaN
     \<and> logToUnsignedNorm eng (Fin 3) (Fin (- 1)) (Fin 5) = NaN
     \<and> (0::real) = 0
     \<and> unsignedNormToLog eng (Fin 1) (Fin 10) (Fin 0) \<in> {NaN, Fin 0, PInf}
     \<and> logToUnsignedNorm eng (Fin 5) (Fin 10) (Fin 0) \<in> {NaN, Fin 0, NegZero}"
  using degenerate_inputs [where p = "Fin 3" and m = "Fin 2" and pv = 0 and lo = "Fin 20"
      and hi = "Fin 20000" and mn = "- 1" and mx = 5 and t = "Fin 1" and q = "Fin 3"
      and ?mn0.0 = 10 and ?mx0.0 = 0 and ?t0.0 = "Fin 1" and ?q0.0 = "Fin 5"]
  by simp

text \<open>
  C8 as the specification words it, NaN for every \<open>min \<le> 0\<close> or \<open>max \<le> 0\<close>, fails
  at a zero bound on every engine: \<open>unsignedNormToLog(1, 10, 0)\<close> is
  \<open>exp(-Infinity)\<close>, which is 0, and \<open>logToUnsignedNorm(10, 10, 0)\<close> is zero over
  \<open>-Infinity\<close>, which is \<open>-0\<close>.
\<close>

theorem zero_bound_not_NaN:
  "\<forall>eng.
     unsignedNormToLog eng (Fin 1) (Fin 10) (Fin 0) = Fin 0
     \<and> \<not> js_isNaN (unsignedNormToLog eng (Fin 1) (Fin 10) (Fin 0))
     \<and> js_isFinite (unsignedNormToLog eng (Fin 1) (Fin 10) (Fin 0))
     \<and> logToUnsignedNorm eng (Fin 10) (Fin 10) (Fin 0) = NegZero
     \<and> \<not> js_isNaN (logToUnsignedNorm eng (Fin 10) (Fin 10) (Fin 0))
     \<and> js_isFinite (logToUnsignedNorm eng (Fin 10) (Fin 10) (Fin 0))"
  by (simp add: unsignedNormToLog_def logToUnsignedNorm_def Let_def js_sub_def js_add_def
      js_mul_def js_div_def signed_inf_def signed_zero_def to_double_0)

text \<open>
  C9, as the code has it. Let \<open>p\<close> be a binary64 value and \<open>max \<noteq> min\<close>. Whenever
  none of \<open>p - min\<close>, \<open>max - min\<close> and their quotient rounds,
  \<open>unsignedNormToParam\<close> applied to \<open>paramToUnsignedNorm(p, min, max)\<close> returns
  \<open>p\<close>.
\<close>

theorem linear_roundtrip_converse:
  assumes "mx \<noteq> mn" "is_double p" "is_double (p - mn)" "is_double (mx - mn)"
    "is_double ((p - mn) / (mx - mn))"
  shows "unsignedNormToParam (paramToUnsignedNorm (Fin p) (Fin mn) (Fin mx)) (Fin mn) (Fin mx)
           = Fin p"
proof -
  define d where "d = js_sub (Fin mx) (Fin mn)"
  define t where "t = js_div (js_sub (Fin p) (Fin mn)) d"
  have d: "js_isFinite d \<and> val_of d = mx - mn"
    unfolding d_def using js_sub_exact [of "Fin mx" "Fin mn"] assms(4) by simp
  have n: "js_isFinite (js_sub (Fin p) (Fin mn)) \<and> val_of (js_sub (Fin p) (Fin mn)) = p - mn"
    using js_sub_exact [of "Fin p" "Fin mn"] assms(3) by simp
  have t: "js_isFinite t \<and> val_of t = (p - mn) / (mx - mn)"
    unfolding t_def using js_div_exact [of "js_sub (Fin p) (Fin mn)" d] n d assms(1,5) by simp
  have m: "js_isFinite (js_mul d t) \<and> val_of (js_mul d t) = p - mn"
    using js_mul_exact [of d t] d t assms(1,3) by simp
  have "js_add (Fin mn) (js_mul d t) = to_double False (mn + (p - mn))"
    using m by (simp add: js_add_def js_isFinite_iff)
  also have "\<dots> = Fin p"
    using assms(2) by (simp add: to_double_exact signed_zero_def)
  finally show ?thesis
    by (simp add: paramToUnsignedNorm_def unsignedNormToParam_def d_def t_def)
qed

theorem linear_roundtrip_converse_witness:
  "(400::real) \<noteq> 200 \<and> is_double 250 \<and> is_double (250 - 200) \<and> is_double (400 - 200)
   \<and> is_double ((250 - 200) / (400 - 200))
   \<and> unsignedNormToParam (paramToUnsignedNorm (Fin 250) (Fin 200) (Fin 400))
        (Fin 200) (Fin 400) = Fin 250"
  using linear_roundtrip_converse [of 400 200 250]
  by (simp add: is_double_numeral small_doubles)

text \<open>
  C9 as stated, for every \<open>p\<close> and every \<open>max \<noteq> min\<close>, fails where an operation
  rounds. With \<open>p = 1\<close>, \<open>min = -1e17\<close> and \<open>max = 1e17\<close> the difference
  \<open>1 - (-1e17)\<close> rounds to \<open>1e17\<close>, the normalized value is 0.5 and the way back
  returns 0.
\<close>

theorem linear_roundtrip_converse_rounds:
  "is_double 1 \<and> is_double (- 100000000000000000) \<and> is_double 100000000000000000
   \<and> unsignedNormToParam
        (paramToUnsignedNorm (Fin 1) (Fin (- 100000000000000000)) (Fin 100000000000000000))
        (Fin (- 100000000000000000)) (Fin 100000000000000000) = Fin 0
   \<and> \<not> js_strict_eq
        (unsignedNormToParam
          (paramToUnsignedNorm (Fin 1) (Fin (- 100000000000000000)) (Fin 100000000000000000))
          (Fin (- 100000000000000000)) (Fin 100000000000000000))
        (Fin 1)"
proof -
  have n: "js_sub (Fin 1) (Fin (- 100000000000000000)) = Fin 100000000000000000"
    unfolding js_sub_Fin by (rule to_double_rounded [OF rnd_1e17_1]) simp_all
  have s: "js_sub (Fin 100000000000000000) (Fin (- 100000000000000000))
      = Fin 200000000000000000"
    using sub_Fin_exact [of 100000000000000000 "- 100000000000000000"]
    by (simp add: large_doubles)
  have d: "js_div (Fin 100000000000000000) (Fin 200000000000000000) = Fin (1 / 2)"
    using div_Fin_exact [of 100000000000000000 200000000000000000]
    by (simp add: small_doubles)
  have m: "js_mul (Fin 200000000000000000) (Fin (1 / 2)) = Fin 100000000000000000"
    using mul_Fin_exact [of 200000000000000000 "1 / 2"] by (simp add: large_doubles)
  have a: "js_add (Fin (- 100000000000000000)) (Fin 100000000000000000) = Fin 0"
    by (simp add: js_add_Fin to_double_0 signed_zero_def)
  have r: "unsignedNormToParam
        (paramToUnsignedNorm (Fin 1) (Fin (- 100000000000000000)) (Fin 100000000000000000))
        (Fin (- 100000000000000000)) (Fin 100000000000000000) = Fin 0"
    by (simp only: paramToUnsignedNorm_def unsignedNormToParam_def n s d m a)
  show ?thesis
    unfolding r by (simp add: js_strict_eq_def is_double_1 is_double_minus large_doubles)
qed

end
